theory Spec2Isabelle
  imports Main "HOL-Library.AList"
begin

section \<open>Python values, errors and the declarative objects of booby\<close>

text \<open>
  The embedding covers \<^verbatim>\<open>booby/base.py\<close>, \<^verbatim>\<open>booby/fields.py\<close> and
  \<^verbatim>\<open>booby/models.py\<close>.

  Python values are the constructors of \<open>pyval\<close>. A model instance is a reference
  \<open>PObj r\<close> into a store of objects, because instances are mutated in place and shared.
  Lists and dicts are never mutated in place by the library (only rebuilt), so they are
  values; a dict is an association list in its iteration order. Python 2 leaves that order
  unspecified, so the statements below are made for every order of the dicts they are
  given; a dict that the library builds is taken to iterate in the order in which its keys
  were first inserted.
  Floating-point numbers, long integers, unicode strings, tuples and
  \<^verbatim>\<open>datetime\<close> objects are not part of the value universe. Of
  \<^verbatim>\<open>DateTimeField\<close>, whose conversions need \<^verbatim>\<open>strftime\<close> and
  \<^verbatim>\<open>strptime\<close>, only the constructor's list of validators is embedded.
\<close>

datatype pyval =
    PNone
  | PBool bool
  | PInt int
  | PStr string
  | PList "pyval list"
  | PDict "(pyval \<times> pyval) list"
  | PObj nat

text \<open>Python's truth value. \<^verbatim>\<open>Model\<close> defines neither \<^verbatim>\<open>__nonzero__\<close> nor
  \<^verbatim>\<open>__len__\<close>, so an instance is always true.\<close>

fun truthy :: "pyval \<Rightarrow> bool" where
  "truthy PNone = False"
| "truthy (PBool b) = b"
| "truthy (PInt i) = (i \<noteq> 0)"
| "truthy (PStr s) = (s \<noteq> [])"
| "truthy (PList xs) = (xs \<noteq> [])"
| "truthy (PDict d) = (d \<noteq> [])"
| "truthy (PObj r) = True"

text \<open>The exceptions that the embedded code can raise. \<open>FieldError\<close> carries the model's
  name and the field name of its message, \<open>BoobyError\<close> its message. \<open>RuntimeError\<close> is
  the interpreter's "maximum recursion depth exceeded".\<close>

datatype error =
    FieldError string string
  | BoobyError string
  | ValueError
  | TypeError
  | AttributeError
  | RuntimeError

text \<open>
  Model classes, their attributes, field objects and validator objects refer to each
  other. A class is the \<^verbatim>\<open>name, bases, attrs\<close> it was created from together with the
  \<^verbatim>\<open>_fields\<close> dict that \<^verbatim>\<open>ModelMeta.__new__\<close> attached. A field object has an
  identity \<open>fid\<close>: \<^verbatim>\<open>instance._data\<close> is keyed by the field object itself.
  The validators are the classes of \<^verbatim>\<open>booby/validators.py\<close> that the three files
  name; \<open>Custom i b\<close> is a caller's validator object, \<open>b\<close> telling whether it is an
  instance of a class of the validators module.
\<close>

datatype model =
    ModelClass (cname: string) (bases: "model list") (cdict: "(string \<times> attr) list")
      (c_fields: "(string \<times> field) list")
and attr =
    AField field
  | AOther
and field =
    FieldObj (fid: nat) (kind: fkind) (fdefault: pyval) (validators: "validator list")
and fkind =
    FieldK
  | StringK
  | IntegerK
  | FloatK
  | BooleanK
  | EmailK
  | EmbeddedK model
  | ListK "model option"
  | DictK "model option" "validator list" "model option" "validator list"
and validator =
    Required
  | In pyval
  | String
  | Integer
  | Float
  | Boolean
  | Email
  | DateTime
  | Min pyval
  | Max pyval
  | Dict
  | ModelV model
  | ListV "validator list"
  | Custom nat bool

section \<open>base.py\<close>

subsection \<open>Field.__init__\<close>

text \<open>Keyword arguments are an association list; \<^verbatim>\<open>kwargs.get(k)\<close> is \<open>None\<close> for
  a missing key.\<close>

definition kwargs_get :: "(string \<times> pyval) list \<Rightarrow> string \<Rightarrow> pyval" where
  "kwargs_get kw k = (case map_of kw k of Some v \<Rightarrow> v | None \<Rightarrow> PNone)"

text \<open>\<^verbatim>\<open>Field.__init__(self, *validators, **kwargs)\<close>. \<open>Field_validators\<close> is the list
  that the constructor leaves in \<^verbatim>\<open>self.validators\<close>. The first two arguments of
  \<open>Field_init\<close> are the identity of the object under construction and its class.\<close>

definition Field_validators :: "validator list \<Rightarrow> (string \<times> pyval) list \<Rightarrow> validator list" where
  "Field_validators vs kw =
     (if truthy (kwargs_get kw ''required'') then [Required] else []) @
     (if truthy (kwargs_get kw ''choices'') then [In (kwargs_get kw ''choices'')] else []) @
     vs"

definition Field_init :: "nat \<Rightarrow> fkind \<Rightarrow> validator list \<Rightarrow> (string \<times> pyval) list \<Rightarrow> field" where
  "Field_init i knd vs kw = FieldObj i knd (kwargs_get kw ''default'') (Field_validators vs kw)"

subsection \<open>ModelMeta.__new__\<close>

text \<open>The inner loops: every pair of a class dict whose value is a field is stored in
  \<^verbatim>\<open>attrs['_fields']\<close> under its name.\<close>

fun collect_fields :: "(string \<times> attr) list \<Rightarrow> (string \<times> field) list \<Rightarrow> (string \<times> field) list" where
  "collect_fields [] acc = acc"
| "collect_fields ((k, AField f) # kvs) acc = collect_fields kvs (AList.update k f acc)"
| "collect_fields ((k, AOther) # kvs) acc = collect_fields kvs acc"

text \<open>\<^verbatim>\<open>for base in bases: for k, v in base.__dict__.iteritems(): ...\<close>. The
  \<^verbatim>\<open>__dict__\<close> of a class holds the attributes of its own body (and \<^verbatim>\<open>_fields\<close>,
  which is a dict and not a field).\<close>

fun collect_bases :: "model list \<Rightarrow> (string \<times> field) list \<Rightarrow> (string \<times> field) list" where
  "collect_bases [] acc = acc"
| "collect_bases (b # bs) acc = collect_bases bs (collect_fields (cdict b) acc)"

definition ModelMeta_new :: "string \<Rightarrow> model list \<Rightarrow> (string \<times> attr) list \<Rightarrow> model" where
  "ModelMeta_new name bs attrs =
     ModelClass name bs attrs (collect_fields attrs (collect_bases bs []))"

text \<open>The root class \<^verbatim>\<open>Model\<close>: its only base is \<^verbatim>\<open>object\<close> and its body
  declares no field.\<close>

definition Model :: model where
  "Model = ModelMeta_new ''Model'' [] []"

text \<open>The schema as the specification words it: the fields declared on the type
  together with the fields of every ancestor, at any depth, a descendant's declaration
  overriding an ancestor's.\<close>

fun spec_schema :: "model \<Rightarrow> (string \<times> field) list"
and spec_schema_bases :: "model list \<Rightarrow> (string \<times> field) list \<Rightarrow> (string \<times> field) list" where
  "spec_schema (ModelClass n bs attrs fs) = collect_fields attrs (spec_schema_bases bs [])"
| "spec_schema_bases [] acc = acc"
| "spec_schema_bases (b # bs) acc =
     spec_schema_bases bs (fold (\<lambda>(k, f). AList.update k f) (spec_schema b) acc)"

section \<open>fields.py: constructing fields\<close>

definition StringField_init :: "nat \<Rightarrow> validator list \<Rightarrow> (string \<times> pyval) list \<Rightarrow> field" where
  "StringField_init i args kw = Field_init i StringK (String # args) kw"

text \<open>\<^verbatim>\<open>IntegerField.__init__\<close> and \<^verbatim>\<open>FloatField.__init__\<close> append the bound
  validators after the call of the base constructor.\<close>

definition bound_validators :: "(string \<times> pyval) list \<Rightarrow> validator list" where
  "bound_validators kw =
     (if truthy (kwargs_get kw ''min_value'') then [Min (kwargs_get kw ''min_value'')] else []) @
     (if truthy (kwargs_get kw ''max_value'') then [Max (kwargs_get kw ''max_value'')] else [])"

definition append_validators :: "field \<Rightarrow> validator list \<Rightarrow> field" where
  "append_validators f vs = FieldObj (fid f) (kind f) (fdefault f) (validators f @ vs)"

definition IntegerField_init :: "nat \<Rightarrow> validator list \<Rightarrow> (string \<times> pyval) list \<Rightarrow> field" where
  "IntegerField_init i args kw =
     append_validators (Field_init i IntegerK (Integer # args) kw) (bound_validators kw)"

definition FloatField_init :: "nat \<Rightarrow> validator list \<Rightarrow> (string \<times> pyval) list \<Rightarrow> field" where
  "FloatField_init i args kw =
     append_validators (Field_init i FloatK (Float # args) kw) (bound_validators kw)"

definition BooleanField_init :: "nat \<Rightarrow> validator list \<Rightarrow> (string \<times> pyval) list \<Rightarrow> field" where
  "BooleanField_init i args kw = Field_init i BooleanK (Boolean # args) kw"

definition EmailField_init :: "nat \<Rightarrow> validator list \<Rightarrow> (string \<times> pyval) list \<Rightarrow> field" where
  "EmailField_init i args kw = Field_init i EmailK (Email # args) kw"

definition EmbeddedField_init :: "nat \<Rightarrow> model \<Rightarrow> validator list \<Rightarrow> (string \<times> pyval) list \<Rightarrow> field" where
  "EmbeddedField_init i m args kw = Field_init i (EmbeddedK m) (ModelV m # args) kw"

text \<open>\<^verbatim>\<open>DateTimeField.__init__\<close> calls the base constructor with a
  \<^verbatim>\<open>DateTime\<close> validator before the caller's validators and then sets
  \<^verbatim>\<open>self.format\<close>: the list it leaves in \<^verbatim>\<open>self.validators\<close>.\<close>

definition DateTimeField_validators :: "validator list \<Rightarrow> (string \<times> pyval) list \<Rightarrow> validator list" where
  "DateTimeField_validators args kw = Field_validators (DateTime # args) kw"

subsection \<open>fetch_model and ensure_iterable\<close>

text \<open>What a caller can pass as an element of an element spec: a subclass of
  \<^verbatim>\<open>Model\<close>, a validator object, or anything else. The whole spec is absent (or
  another false value), one such object, or a list or tuple of them.\<close>

datatype spec_item = SClass model | SValidator validator | SOther

datatype spec_arg = ArgNone | ArgOne spec_item | ArgSeq "spec_item list"

fun ensure_iterable :: "spec_arg \<Rightarrow> spec_item list" where
  "ensure_iterable ArgNone = []"
| "ensure_iterable (ArgOne x) = [x]"
| "ensure_iterable (ArgSeq xs) = xs"

definition one_model_msg :: string where
  "one_model_msg = ''In list field there must be only one model validator''"

text \<open>\<^verbatim>\<open>isinstance(validator, all_classes)\<close>: the object is an instance of a class of
  the validators module.\<close>

fun is_builtin_instance :: "validator \<Rightarrow> bool" where
  "is_builtin_instance (Custom i b) = b"
| "is_builtin_instance v = True"

text \<open>The loop of \<^verbatim>\<open>fetch_model\<close>, with its three local variables as accumulators.\<close>

fun fetch_loop ::
  "spec_item list \<Rightarrow> model option \<Rightarrow> validator list \<Rightarrow> validator list \<Rightarrow>
   error + (model option \<times> validator list \<times> validator list)" where
  "fetch_loop [] model mvs ivs = Inr (model, mvs, ivs)"
| "fetch_loop (SClass m # vs) model mvs ivs =
     (if model \<noteq> None then Inl (BoobyError one_model_msg)
      else fetch_loop vs (Some m) (mvs @ [ModelV m]) ivs)"
| "fetch_loop (SValidator (ModelV m) # vs) model mvs ivs =
     (if model \<noteq> None then Inl (BoobyError one_model_msg)
      else fetch_loop vs (Some m) (mvs @ [ModelV m]) ivs)"
| "fetch_loop (SValidator v # vs) model mvs ivs =
     (if is_builtin_instance v then fetch_loop vs model mvs (ivs @ [v])
      else fetch_loop vs model mvs ivs)"
| "fetch_loop (SOther # vs) model mvs ivs = fetch_loop vs model mvs ivs"

definition fetch_model ::
  "spec_item list \<Rightarrow> error + (model option \<times> validator list \<times> validator list)" where
  "fetch_model vs = fetch_loop vs None [] []"

text \<open>\<^verbatim>\<open>ListField.__init__(self, validators, *args, **kwargs)\<close>: the positional
  \<open>args\<close> are accepted and not passed on.\<close>

definition ListField_init ::
  "nat \<Rightarrow> spec_arg \<Rightarrow> validator list \<Rightarrow> (string \<times> pyval) list \<Rightarrow> error + field" where
  "ListField_init i spec args kw =
     (case fetch_model (ensure_iterable spec) of
        Inl e \<Rightarrow> Inl e
      | Inr (model, mvs, ivs) \<Rightarrow>
          Inr (Field_init i (ListK model) [ListV (if mvs = [] then ivs else mvs)] kw))"

definition DictField_init ::
  "nat \<Rightarrow> spec_arg \<Rightarrow> spec_arg \<Rightarrow> validator list \<Rightarrow> (string \<times> pyval) list \<Rightarrow> error + field" where
  "DictField_init i key val args kw =
     (case fetch_model (ensure_iterable key) of
        Inl e \<Rightarrow> Inl e
      | Inr (key_model, key_validators, _) \<Rightarrow>
          (case fetch_model (ensure_iterable val) of
             Inl e \<Rightarrow> Inl e
           | Inr (value_model, value_validators, _) \<Rightarrow>
               Inr (Field_init i (DictK key_model key_validators value_model value_validators)
                      (Dict # args) kw)))"

section \<open>The store of model instances\<close>

text \<open>An instance is its class and its \<^verbatim>\<open>_data\<close> dict, keyed by the identity of the
  field object. The store maps every reference to an object and counts the references
  handed out; \<^verbatim>\<open>Model.__new__\<close> takes the next one and starts with an empty
  \<^verbatim>\<open>_data\<close>.\<close>

record obj =
  ocls :: model
  odata :: "(nat \<times> pyval) list"

record store =
  objs :: "nat \<Rightarrow> obj"
  next_ref :: nat

definition Model_new :: "model \<Rightarrow> store \<Rightarrow> store \<times> nat" where
  "Model_new m s =
     (s\<lparr>objs := (objs s)(next_ref s := \<lparr>ocls = m, odata = []\<rparr>), next_ref := Suc (next_ref s)\<rparr>,
      next_ref s)"

text \<open>\<^verbatim>\<open>Field.__get__\<close> on an instance: \<^verbatim>\<open>instance._data.get(self, self.default)\<close>;
  \<^verbatim>\<open>Field.__set__\<close>: \<^verbatim>\<open>instance._data[self] = value\<close>.\<close>

definition Field_get :: "field \<Rightarrow> store \<Rightarrow> nat \<Rightarrow> pyval" where
  "Field_get f s r = (case map_of (odata (objs s r)) (fid f) of Some v \<Rightarrow> v | None \<Rightarrow> fdefault f)"

definition Field_set :: "field \<Rightarrow> store \<Rightarrow> nat \<Rightarrow> pyval \<Rightarrow> store" where
  "Field_set f s r v =
     s\<lparr>objs := (objs s)(r := (objs s r)\<lparr>odata := AList.update (fid f) v (odata (objs s r))\<rparr>)\<rparr>"

text \<open>\<^verbatim>\<open>isinstance(v, m)\<close> for a model class \<open>m\<close>: \<open>v\<close> is an instance whose class
  is \<open>m\<close> or has \<open>m\<close> among its ancestors.\<close>

fun issubclass :: "model \<Rightarrow> model \<Rightarrow> bool" where
  "issubclass (ModelClass n bs attrs fs) m =
     (ModelClass n bs attrs fs = m \<or> (\<exists>b \<in> set bs. issubclass b m))"

definition isinstance :: "store \<Rightarrow> pyval \<Rightarrow> model \<Rightarrow> bool" where
  "isinstance s v m = (case v of PObj r \<Rightarrow> issubclass (ocls (objs s r)) m | _ \<Rightarrow> False)"

fun is_str :: "pyval \<Rightarrow> bool" where
  "is_str (PStr k) = True"
| "is_str v = False"


section \<open>fields.py: writing a field\<close>

text \<open>Python's builtin \<^verbatim>\<open>int(x)\<close> on the value universe: an integer is itself, a
  boolean is 0 or 1, a string is stripped of surrounding white space and must then be an
  optional sign followed by decimal digits (\<^verbatim>\<open>ValueError\<close> otherwise); every other
  value is a \<^verbatim>\<open>TypeError\<close>.\<close>

definition is_space :: "char \<Rightarrow> bool" where
  "is_space c = (c \<in> set [CHR '' '', CHR 0x09, CHR 0x0A, CHR 0x0B, CHR 0x0C, CHR 0x0D])"

definition is_digit :: "char \<Rightarrow> bool" where
  "is_digit c = (48 \<le> (of_char c :: nat) \<and> (of_char c :: nat) \<le> 57)"

definition digits_value :: "string \<Rightarrow> int" where
  "digits_value ds = foldl (\<lambda>a c. 10 * a + (int (of_char c) - 48)) 0 ds"

definition strip :: "string \<Rightarrow> string" where
  "strip s = rev (dropWhile is_space (rev (dropWhile is_space s)))"

fun parse_int :: "string \<Rightarrow> int option" where
  "parse_int [] = None"
| "parse_int (c # cs) =
     (if c = CHR ''-'' then (if cs \<noteq> [] \<and> list_all is_digit cs then Some (- digits_value cs) else None)
      else if c = CHR ''+'' then (if cs \<noteq> [] \<and> list_all is_digit cs then Some (digits_value cs) else None)
      else if list_all is_digit (c # cs) then Some (digits_value (c # cs)) else None)"

fun py_int :: "pyval \<Rightarrow> error + int" where
  "py_int (PInt i) = Inr i"
| "py_int (PBool b) = Inr (if b then 1 else 0)"
| "py_int (PStr s) = (case parse_int (strip s) of Some i \<Rightarrow> Inr i | None \<Rightarrow> Inl ValueError)"
| "py_int v = Inl TypeError"

definition integer_msg :: string where
  "integer_msg = ''Should contain only integer values.''"


text \<open>\<^verbatim>\<open>IntegerField.__set__\<close>: the value handed on to \<^verbatim>\<open>Field.__set__\<close>.\<close>

definition integer_value :: "pyval \<Rightarrow> error + pyval" where
  "integer_value v =
     (if v \<noteq> PNone then
        (case py_int v of
           Inr i \<Rightarrow> Inr (PInt i)
         | Inl e \<Rightarrow> (if e = ValueError then Inl (BoobyError integer_msg) else Inl e))
      else Inr v)"

text \<open>
  The write path. \<^verbatim>\<open>self.model(**value)\<close> is \<open>construct\<close>: the call itself fails
  with \<^verbatim>\<open>TypeError\<close> unless \<open>value\<close> is a mapping with string keys. A keyword
  named \<open>cls\<close> or \<open>self\<close> meets the first parameter of
  \<^verbatim>\<open>Model.__new__(cls, *args, **kwargs)\<close> or of \<^verbatim>\<open>Model.__init__(self, **kwargs)\<close>,
  which has its value already, and that is a \<^verbatim>\<open>TypeError\<close> too. Otherwise
  \<^verbatim>\<open>Model.__new__\<close> and \<^verbatim>\<open>Model.__init__\<close> (\<open>init_loop\<close>) run.
  \<open>set_value\<close> is what the \<^verbatim>\<open>__set__\<close> of each field class does to the value before
  it calls \<^verbatim>\<open>Field.__set__\<close>: \<^verbatim>\<open>IntegerField\<close> coerces, \<^verbatim>\<open>EmbeddedField\<close>
  constructs an instance from a dict, \<^verbatim>\<open>ListField\<close> and \<^verbatim>\<open>DictField\<close> call their
  \<^verbatim>\<open>to_python\<close> (\<open>list_map\<close>, \<open>dict_loop\<close>) when the first element is not an
  instance of the configured model. The functions recurse on the value written.
\<close>

function (sequential)
    construct :: "model \<Rightarrow> store \<Rightarrow> pyval \<Rightarrow> error + (store \<times> nat)"
and init_loop :: "store \<Rightarrow> nat \<Rightarrow> (pyval \<times> pyval) list \<Rightarrow> error + store"
and set_value :: "fkind \<Rightarrow> store \<Rightarrow> pyval \<Rightarrow> error + (store \<times> pyval)"
and list_map :: "model \<Rightarrow> store \<Rightarrow> pyval list \<Rightarrow> error + (store \<times> pyval list)"
and dict_loop ::
  "model option \<Rightarrow> model option \<Rightarrow> store \<Rightarrow> (pyval \<times> pyval) list \<Rightarrow> (pyval \<times> pyval) list \<Rightarrow>
   error + (store \<times> (pyval \<times> pyval) list)" where
  "construct m s (PDict d) =
     (if \<not> list_all is_str (map fst d) \<or>
         PStr ''cls'' \<in> set (map fst d) \<or> PStr ''self'' \<in> set (map fst d)
      then Inl TypeError
      else (case init_loop (fst (Model_new m s)) (snd (Model_new m s)) d of
              Inl e \<Rightarrow> Inl e
            | Inr s' \<Rightarrow> Inr (s', snd (Model_new m s))))"
| "construct m s v = Inl TypeError"
| "init_loop s r [] = Inr s"
| "init_loop s r ((PStr k, v) # kvs) =
     (case map_of (c_fields (ocls (objs s r))) k of
        None \<Rightarrow> Inl (FieldError (cname (ocls (objs s r))) k)
      | Some f \<Rightarrow>
          (case set_value (kind f) s v of
             Inl e \<Rightarrow> Inl e
           | Inr (s', v') \<Rightarrow> init_loop (Field_set f s' r v') r kvs))"
| "init_loop s r ((k, v) # kvs) = Inl TypeError"
| "set_value IntegerK s v =
     (case integer_value v of Inl e \<Rightarrow> Inl e | Inr v' \<Rightarrow> Inr (s, v'))"
| "set_value (EmbeddedK m) s (PDict d) =
     (case construct m s (PDict d) of
        Inl e \<Rightarrow> Inl e
      | Inr (s', r') \<Rightarrow> Inr (s', PObj r'))"
| "set_value (ListK (Some m)) s (PList (x # xs)) =
     (if \<not> isinstance s x m then
        (case list_map m s (x # xs) of
           Inl e \<Rightarrow> Inl e
         | Inr (s', ys) \<Rightarrow> Inr (s', PList ys))
      else Inr (s, PList (x # xs)))"
| "set_value (DictK key_model kvs value_model vvs) s (PDict ((first_key, first_value) # rest)) =
     (if (key_model \<noteq> None \<or> value_model \<noteq> None) \<and>
         ((value_model \<noteq> None \<and> \<not> isinstance s first_value (the value_model)) \<or>
          (key_model \<noteq> None \<and> \<not> isinstance s first_key (the key_model)))
      then
        (case dict_loop key_model value_model s ((first_key, first_value) # rest) [] of
           Inl e \<Rightarrow> Inl e
         | Inr (s', res) \<Rightarrow> Inr (s', PDict res))
      else Inr (s, PDict ((first_key, first_value) # rest)))"
| "set_value k s v = Inr (s, v)"
| "list_map m s [] = Inr (s, [])"
| "list_map m s (x # xs) =
     (case construct m s x of
        Inl e \<Rightarrow> Inl e
      | Inr (s', r') \<Rightarrow>
          (case list_map m s' xs of
             Inl e \<Rightarrow> Inl e
           | Inr (s'', ys) \<Rightarrow> Inr (s'', PObj r' # ys)))"
| "dict_loop key_model value_model s [] res = Inr (s, res)"
| "dict_loop key_model value_model s ((k, v) # kvs) res =
     (case (case key_model of None \<Rightarrow> Inr (s, k)
            | Some km \<Rightarrow> (case construct km s k of Inl e \<Rightarrow> Inl e | Inr (s', r') \<Rightarrow> Inr (s', PObj r'))) of
        Inl e \<Rightarrow> Inl e
      | Inr (s', k') \<Rightarrow>
          (case (case value_model of None \<Rightarrow> Inr (s', v)
                 | Some vm \<Rightarrow> (case construct vm s' v of Inl e \<Rightarrow> Inl e | Inr (s'', r') \<Rightarrow> Inr (s'', PObj r'))) of
             Inl e \<Rightarrow> Inl e
           | Inr (s'', v') \<Rightarrow> dict_loop key_model value_model s'' kvs (AList.update k' v' res)))"
  by pat_completeness auto
termination
  by (relation "measure (\<lambda>x. case x of
         Inl (Inl (m, s, v)) \<Rightarrow> 2 * size v
       | Inl (Inr (s, r, d)) \<Rightarrow> 2 * size (PDict d) - 1
       | Inr (Inl (k, s, v)) \<Rightarrow> 2 * size v + 1
       | Inr (Inr (Inl (m, s, xs))) \<Rightarrow> 2 * size (PList xs)
       | Inr (Inr (Inr (km, vm, s, d, res))) \<Rightarrow> 2 * size (PDict d))") auto



text \<open>The \<^verbatim>\<open>__set__\<close> of a field object, whatever its class: the class's own treatment
  of the value, then \<^verbatim>\<open>Field.__set__\<close>.\<close>

definition field_set :: "field \<Rightarrow> store \<Rightarrow> nat \<Rightarrow> pyval \<Rightarrow> error + store" where
  "field_set f s r v =
     (case set_value (kind f) s v of
        Inl e \<Rightarrow> Inl e
      | Inr (s', v') \<Rightarrow> Inr (Field_set f s' r v'))"

text \<open>Iterating a value, as \<^verbatim>\<open>map(f, value)\<close> does: a list gives its elements, a
  string its characters, a dict its keys. A model instance has \<^verbatim>\<open>__getitem__\<close> and no
  \<^verbatim>\<open>__iter__\<close>, so it is asked for item \<open>0\<close>, which raises \<^verbatim>\<open>FieldError\<close>.\<close>

fun py_iter :: "store \<Rightarrow> pyval \<Rightarrow> error + pyval list" where
  "py_iter s (PList xs) = Inr xs"
| "py_iter s (PStr cs) = Inr (map (\<lambda>c. PStr [c]) cs)"
| "py_iter s (PDict d) = Inr (map fst d)"
| "py_iter s (PObj r) = Inl (FieldError (cname (ocls (objs s r))) ''0'')"
| "py_iter s v = Inl TypeError"

text \<open>\<^verbatim>\<open>to_python\<close> of a field: \<^verbatim>\<open>ListField.to_python\<close>,
  \<^verbatim>\<open>DictField.to_python\<close>, and \<^verbatim>\<open>Field.to_python\<close> for every other class.\<close>

fun field_to_python :: "fkind \<Rightarrow> store \<Rightarrow> pyval \<Rightarrow> error + (store \<times> pyval)" where
  "field_to_python (ListK model) s v =
     (if \<not> truthy v then Inr (s, v)
      else (case py_iter s v of
              Inl e \<Rightarrow> Inl e
            | Inr xs \<Rightarrow>
                (case model of
                   None \<Rightarrow> Inr (s, PList xs)
                 | Some m \<Rightarrow>
                     (case list_map m s xs of
                        Inl e \<Rightarrow> Inl e
                      | Inr (s', ys) \<Rightarrow> Inr (s', PList ys)))))"
| "field_to_python (DictK key_model kvs value_model vvs) s v =
     (if \<not> truthy v then Inr (s, PNone)
      else (case v of
              PDict d \<Rightarrow>
                (case dict_loop key_model value_model s d [] of
                   Inl e \<Rightarrow> Inl e
                 | Inr (s', res) \<Rightarrow> Inr (s', PDict res))
            | _ \<Rightarrow> Inl AttributeError))"
| "field_to_python k s v = Inr (s, v)"

section \<open>models.py\<close>

text \<open>\<^verbatim>\<open>cls(**kwargs)\<close> with keyword arguments given by name.\<close>

definition Model_call :: "model \<Rightarrow> store \<Rightarrow> (string \<times> pyval) list \<Rightarrow> error + (store \<times> nat)" where
  "Model_call m s kwargs = construct m s (PDict (map (\<lambda>(k, v). (PStr k, v)) kwargs))"



definition Model_setitem :: "store \<Rightarrow> nat \<Rightarrow> string \<Rightarrow> pyval \<Rightarrow> error + store" where
  "Model_setitem s r k v =
     (case map_of (c_fields (ocls (objs s r))) k of
        None \<Rightarrow> Inl (FieldError (cname (ocls (objs s r))) k)
      | Some f \<Rightarrow> field_set f s r v)"

text \<open>The last branch of the loop of \<^verbatim>\<open>_update\<close>:
  \<^verbatim>\<open>self[k] = self._fields[k].to_python(v)\<close> when \<open>plain\<close>, \<^verbatim>\<open>self[k] = v\<close>
  otherwise.\<close>

definition update_item :: "store \<Rightarrow> nat \<Rightarrow> string \<Rightarrow> field \<Rightarrow> pyval \<Rightarrow> bool \<Rightarrow> error + store" where
  "update_item s r k f v plain =
     (if plain then
        (case field_to_python (kind f) s v of
           Inl e \<Rightarrow> Inl e
         | Inr (s', v') \<Rightarrow> Model_setitem s' r k v')
      else Model_setitem s r k v)"

text \<open>\<^verbatim>\<open>value = k in self and self[k] or None\<close>, for a declared \<open>k\<close>.\<close>

definition current_value :: "field \<Rightarrow> store \<Rightarrow> nat \<Rightarrow> pyval" where
  "current_value f s r = (if truthy (Field_get f s r) then Field_get f s r else PNone)"

text \<open>\<^verbatim>\<open>Model._update\<close>. A key that is not a declared name is passed over. When the
  current value is an instance and the new one a dict, the instance's own
  \<^verbatim>\<open>_update\<close> runs on the dict.\<close>

function (sequential) Model_update ::
  "store \<Rightarrow> nat \<Rightarrow> (pyval \<times> pyval) list \<Rightarrow> bool \<Rightarrow> error + store" where
  "Model_update s r [] plain = Inr s"
| "Model_update s r ((PStr k, v) # vals) plain =
     (case map_of (c_fields (ocls (objs s r))) k of
        None \<Rightarrow> Model_update s r vals plain
      | Some f \<Rightarrow>
          (case (current_value f s r, v) of
             (PObj r', PDict d) \<Rightarrow>
               (case Model_update s r' d plain of
                  Inl e \<Rightarrow> Inl e
                | Inr s' \<Rightarrow> Model_update s' r vals plain)
           | _ \<Rightarrow>
               (case update_item s r k f v plain of
                  Inl e \<Rightarrow> Inl e
                | Inr s' \<Rightarrow> Model_update s' r vals plain)))"
| "Model_update s r ((k, v) # vals) plain = Model_update s r vals plain"
  by pat_completeness auto
termination
  by (relation "measure (\<lambda>(s, r, vals, plain). size (PDict vals))") auto

text \<open>\<^verbatim>\<open>Model.update(dict_=None, plain_=False, **kwargs)\<close>, with its three parameters as
  the call has bound them: \<open>kwargs\<close> holds the keywords that are not names of the
  parameters. A value without \<^verbatim>\<open>iteritems\<close> passed as \<open>dict_\<close> is an
  \<^verbatim>\<open>AttributeError\<close>.\<close>

fun update :: "store \<Rightarrow> nat \<Rightarrow> pyval \<Rightarrow> bool \<Rightarrow> (string \<times> pyval) list \<Rightarrow> error + store" where
  "update s r PNone plain kwargs = Model_update s r (map (\<lambda>(k, v). (PStr k, v)) kwargs) plain"
| "update s r (PDict d) plain kwargs = Model_update s r d plain"
| "update s r v plain kwargs = Inl AttributeError"


text \<open>
  \<^verbatim>\<open>Model.to_plain\<close> and the \<^verbatim>\<open>to_plain\<close> of the field classes. They follow the
  references held in the store, which may form a cycle; the first argument bounds the
  depth of nested calls of \<^verbatim>\<open>Model.to_plain\<close>, as the interpreter's recursion limit
  does, and running out of it is the \<^verbatim>\<open>RuntimeError\<close>. \<open>elem_to_plain\<close> is
  \<^verbatim>\<open>isinstance(s, Model) and s.to_plain() or s\<close>. A dict or a list is not hashable
  and cannot become a key of the result of \<^verbatim>\<open>DictField.to_plain\<close>.
\<close>

fun hashable :: "pyval \<Rightarrow> bool" where
  "hashable (PList xs) = False"
| "hashable (PDict d) = False"
| "hashable v = True"

function (sequential)
    Model_to_plain :: "nat \<Rightarrow> store \<Rightarrow> nat \<Rightarrow> error + pyval"
and fields_to_plain ::
  "nat \<Rightarrow> store \<Rightarrow> nat \<Rightarrow> (string \<times> field) list \<Rightarrow> (pyval \<times> pyval) list \<Rightarrow> error + pyval"
and field_to_plain :: "nat \<Rightarrow> store \<Rightarrow> fkind \<Rightarrow> pyval \<Rightarrow> error + pyval"
and elem_to_plain :: "nat \<Rightarrow> store \<Rightarrow> pyval \<Rightarrow> error + pyval"
and list_to_plain :: "nat \<Rightarrow> store \<Rightarrow> pyval list \<Rightarrow> error + pyval list"
and dict_to_plain ::
  "nat \<Rightarrow> store \<Rightarrow> (pyval \<times> pyval) list \<Rightarrow> (pyval \<times> pyval) list \<Rightarrow> error + pyval" where
  "Model_to_plain 0 s r = Inl RuntimeError"
| "Model_to_plain (Suc n) s r = fields_to_plain n s r (c_fields (ocls (objs s r))) []"
| "fields_to_plain n s r [] res = Inr (PDict res)"
| "fields_to_plain n s r ((name, f) # fs) res =
     (case field_to_plain n s (kind f) (Field_get f s r) of
        Inl e \<Rightarrow> Inl e
      | Inr p \<Rightarrow> fields_to_plain n s r fs (AList.update (PStr name) p res))"
| "field_to_plain n s (EmbeddedK m) v =
     (if \<not> truthy v then Inr PNone
      else (case v of
              PObj r' \<Rightarrow>
                (case Model_to_plain n s r' of
                   Inl e \<Rightarrow> Inl e
                 | Inr p \<Rightarrow> Inr (if truthy p then p else PNone))
            | _ \<Rightarrow> Inl AttributeError))"
| "field_to_plain n s (ListK model) v =
     (if \<not> truthy v then Inr PNone
      else (case py_iter s v of
              Inl e \<Rightarrow> Inl e
            | Inr xs \<Rightarrow>
                (case list_to_plain n s xs of
                   Inl e \<Rightarrow> Inl e
                 | Inr ys \<Rightarrow> Inr (PList ys))))"
| "field_to_plain n s (DictK key_model kvs value_model vvs) v =
     (if \<not> truthy v then Inr PNone
      else (case v of
              PDict d \<Rightarrow> dict_to_plain n s d []
            | _ \<Rightarrow> Inl AttributeError))"
| "field_to_plain n s k v = Inr v"
| "elem_to_plain n s (PObj r') =
     (case Model_to_plain n s r' of
        Inl e \<Rightarrow> Inl e
      | Inr p \<Rightarrow> Inr (if truthy p then p else PObj r'))"
| "elem_to_plain n s v = Inr v"
| "list_to_plain n s [] = Inr []"
| "list_to_plain n s (x # xs) =
     (case elem_to_plain n s x of
        Inl e \<Rightarrow> Inl e
      | Inr y \<Rightarrow>
          (case list_to_plain n s xs of
             Inl e \<Rightarrow> Inl e
           | Inr ys \<Rightarrow> Inr (y # ys)))"
| "dict_to_plain n s [] res = Inr (PDict res)"
| "dict_to_plain n s ((k, v) # d) res =
     (case elem_to_plain n s k of
        Inl e \<Rightarrow> Inl e
      | Inr k' \<Rightarrow>
          (case elem_to_plain n s v of
             Inl e \<Rightarrow> Inl e
           | Inr v' \<Rightarrow>
               (if hashable k' then dict_to_plain n s d (AList.update k' v' res)
                else Inl TypeError)))"
  by pat_completeness auto
termination
  by (relation "measures
        [\<lambda>x. case x of
           Inl (Inl (n, s, r)) \<Rightarrow> n
         | Inl (Inr (Inl (n, s, r, fs, res))) \<Rightarrow> n
         | Inl (Inr (Inr (n, s, k, v))) \<Rightarrow> n
         | Inr (Inl (n, s, v)) \<Rightarrow> n
         | Inr (Inr (Inl (n, s, xs))) \<Rightarrow> n
         | Inr (Inr (Inr (n, s, d, res))) \<Rightarrow> n,
         \<lambda>x. case x of
           Inl (Inl (n, s, r)) \<Rightarrow> 0
         | Inl (Inr (Inl (n, s, r, fs, res))) \<Rightarrow> 4
         | Inl (Inr (Inr (n, s, k, v))) \<Rightarrow> 3
         | Inr (Inl (n, s, v)) \<Rightarrow> 1
         | Inr (Inr (Inl (n, s, xs))) \<Rightarrow> 2
         | Inr (Inr (Inr (n, s, d, res))) \<Rightarrow> 2,
         \<lambda>x. case x of
           Inl (Inl (n, s, r)) \<Rightarrow> 0
         | Inl (Inr (Inl (n, s, r, fs, res))) \<Rightarrow> length fs
         | Inl (Inr (Inr (n, s, k, v))) \<Rightarrow> 0
         | Inr (Inl (n, s, v)) \<Rightarrow> 0
         | Inr (Inr (Inl (n, s, xs))) \<Rightarrow> length xs
         | Inr (Inr (Inr (n, s, d, res))) \<Rightarrow> length d]") auto

section \<open>Predicates used to state the properties\<close>

text \<open>An item of an element spec that names a nested model: a model class or a
  \<^verbatim>\<open>Model\<close> validator.\<close>

fun is_model_item :: "spec_item \<Rightarrow> bool" where
  "is_model_item (SClass m) = True"
| "is_model_item (SValidator (ModelV m)) = True"
| "is_model_item x = False"

text \<open>The order of the validator chain as the specification words it: \<^verbatim>\<open>Required\<close>
  when \<open>required\<close> is true, \<^verbatim>\<open>In\<close> when \<open>choices\<close> is not empty, the type-specific
  validators, the caller's validators.\<close>

definition spec_chain :: "pyval \<Rightarrow> pyval \<Rightarrow> validator list \<Rightarrow> validator list \<Rightarrow> validator list" where
  "spec_chain required choices type_specific custom =
     (if truthy required then [Required] else []) @
     (if truthy choices then [In choices] else []) @
     type_specific @ custom"

text \<open>The chain of a field with bounds as the amended claim words it: the chain
  above, then \<^verbatim>\<open>Min\<close> when \<open>min_value\<close> is given and true, then \<^verbatim>\<open>Max\<close> when
  \<open>max_value\<close> is given and true.\<close>

definition spec_chain_bounds ::
  "pyval \<Rightarrow> pyval \<Rightarrow> validator list \<Rightarrow> validator list \<Rightarrow> pyval \<Rightarrow> pyval \<Rightarrow> validator list" where
  "spec_chain_bounds required choices type_specific custom min_value max_value =
     spec_chain required choices type_specific custom @
     (if truthy min_value then [Min min_value] else []) @
     (if truthy max_value then [Max max_value] else [])"

text \<open>A store in which no instance has been created yet.\<close>

definition empty_store :: store where
  "empty_store = \<lparr>objs = (\<lambda>r. \<lparr>ocls = Model, odata = []\<rparr>), next_ref = 0\<rparr>"

text \<open>Three classes in a line of inheritance,
  \<^verbatim>\<open>class Grand(Model): a = Field()\<close>, \<^verbatim>\<open>class Parent(Grand): b = Field()\<close> and
  \<^verbatim>\<open>class Child(Parent): c = Field()\<close>.\<close>

definition grand_a :: field where "grand_a = Field_init 1 FieldK [] []"

definition parent_b :: field where "parent_b = Field_init 2 FieldK [] []"

definition child_c :: field where "child_c = Field_init 3 FieldK [] []"

definition Grand :: model where
  "Grand = ModelMeta_new ''Grand'' [Model] [(''a'', AField grand_a)]"

definition Parent :: model where
  "Parent = ModelMeta_new ''Parent'' [Grand] [(''b'', AField parent_b)]"

definition Child :: model where
  "Child = ModelMeta_new ''Child'' [Parent] [(''c'', AField child_c)]"

text \<open>Two relations between a store and a later one. \<open>extends s s'\<close>: every instance
  that exists in \<open>s\<close> is the same in \<open>s'\<close>, which may hold new ones. \<open>writes_only r s s'\<close>:
  the same, except that the \<^verbatim>\<open>_data\<close> of \<open>r\<close> may differ.\<close>

definition extends :: "store \<Rightarrow> store \<Rightarrow> bool" where
  "extends s s' = (next_ref s \<le> next_ref s' \<and> (\<forall>x < next_ref s. objs s' x = objs s x))"



text \<open>An integer field, \<^verbatim>\<open>IntegerField()\<close>.\<close>

definition int_field :: field where
  "int_field = IntegerField_init 5 [] []"

text \<open>A class with two fields, \<^verbatim>\<open>class Pair(Model): a = Field(); b = IntegerField()\<close>.\<close>

definition pair_a :: field where "pair_a = Field_init 1 FieldK [] []"

definition pair_b :: field where "pair_b = IntegerField_init 2 [] []"

definition Pair_cls :: model where
  "Pair_cls = ModelMeta_new ''Pair'' [Model] [(''a'', AField pair_a), (''b'', AField pair_b)]"



text \<open>
  \<^verbatim>\<open>getattr(self, k)\<close> and \<^verbatim>\<open>setattr(self, k, v)\<close> take the first attribute named
  \<open>k\<close> that the class of the instance or one of its ancestors declares, in the method
  resolution order, while \<open>Model_getitem\<close>, \<open>Model_setitem\<close> and \<open>init_loop\<close> go to the
  field that \<^verbatim>\<open>_fields\<close> holds under \<open>k\<close>. \<open>resolves m\<close> describes the classes for which
  the two are the same field whatever the order of the ancestors is: for every name \<open>k\<close>
  of \<^verbatim>\<open>_fields\<close> with its field \<open>f\<close>, the body of the class declares \<open>k\<close> as \<open>f\<close>, or
  it does not declare \<open>k\<close> and every ancestor that declares \<open>k\<close> declares it as \<open>f\<close>.
  The properties that depend on which field object an attribute reaches are stated for
  such classes.
\<close>

fun ancestors :: "model \<Rightarrow> model list"
and ancestors_list :: "model list \<Rightarrow> model list" where
  "ancestors (ModelClass n bs attrs fs) = ancestors_list bs"
| "ancestors_list [] = []"
| "ancestors_list (b # bs) = (b # ancestors b) @ ancestors_list bs"




text \<open>The classes of the example of the specification,
  \<^verbatim>\<open>class Point(Model): x = IntegerField(); y = IntegerField()\<close> and
  \<^verbatim>\<open>class Box(Model): inner = EmbeddedField(Point)\<close>, the store after
  \<^verbatim>\<open>p = Point(x=1, y=1)\<close> and the store after \<^verbatim>\<open>b = Box(inner=p)\<close>.\<close>

definition point_x :: field where "point_x = IntegerField_init 11 [] []"

definition point_y :: field where "point_y = IntegerField_init 12 [] []"

definition Point :: model where
  "Point = ModelMeta_new ''Point'' [Model] [(''x'', AField point_x), (''y'', AField point_y)]"

definition box_inner :: field where "box_inner = EmbeddedField_init 13 Point [] []"

definition Box :: model where
  "Box = ModelMeta_new ''Box'' [Model] [(''inner'', AField box_inner)]"

definition point_store :: store where
  "point_store =
     \<lparr>objs = (\<lambda>r. \<lparr>ocls = Model, odata = []\<rparr>)
        (0 := \<lparr>ocls = Point, odata = [(11, PInt 1), (12, PInt 1)]\<rparr>),
      next_ref = 1\<rparr>"

definition box_store :: store where
  "box_store =
     \<lparr>objs = (\<lambda>r. \<lparr>ocls = Model, odata = []\<rparr>)
        (0 := \<lparr>ocls = Point, odata = [(11, PInt 1), (12, PInt 1)]\<rparr>,
         1 := \<lparr>ocls = Box, odata = [(13, PObj 0)]\<rparr>),
      next_ref = 2\<rparr>"


















section \<open>Properties\<close>

subsection \<open>fetch_model\<close>

lemma fetch_loop_second_model:
  "model \<noteq> None \<Longrightarrow> \<exists>x \<in> set vs. is_model_item x \<Longrightarrow>
   fetch_loop vs model mvs ivs = Inl (BoobyError one_model_msg)"
  by (induction vs model mvs ivs rule: fetch_loop.induct) auto

lemma fetch_loop_two_models:
  "1 < length (filter is_model_item vs) \<Longrightarrow>
   fetch_loop vs model mvs ivs = Inl (BoobyError one_model_msg)"
proof (induction vs model mvs ivs rule: fetch_loop.induct)
  case (2 m vs model mvs ivs)
  then have "\<exists>x \<in> set vs. is_model_item x"
    by (cases "filter is_model_item vs = []") (auto simp: filter_empty_conv)
  then show ?case using fetch_loop_second_model[of "Some m" vs] by auto
next
  case (3 m vs model mvs ivs)
  then have "\<exists>x \<in> set vs. is_model_item x"
    by (cases "filter is_model_item vs = []") (auto simp: filter_empty_conv)
  then show ?case using fetch_loop_second_model[of "Some m" vs] by auto
qed auto

text \<open>
  C8. Constructing a \<^verbatim>\<open>ListField\<close> whose element spec holds more than one item that
  names a nested model (a model class or a \<^verbatim>\<open>Model\<close> validator, in any combination
  and whatever else the spec holds) raises, during the construction of the field, the
  \<^verbatim>\<open>BoobyError\<close> "In list field there must be only one model validator", which is the
  configuration error of the specification.
\<close>

theorem ListField_two_models:
  "1 < length (filter is_model_item (ensure_iterable spec)) \<Longrightarrow>
   ListField_init i spec args kw = Inl (BoobyError one_model_msg)"
  by (simp add: ListField_init_def fetch_model_def fetch_loop_two_models)

theorem ListField_two_models_witness:
  "1 < length (filter is_model_item (ensure_iterable (ArgSeq [SClass Model, SValidator (ModelV Model)]))) \<and>
   ListField_init 0 (ArgSeq [SClass Model, SValidator (ModelV Model)]) [] [] = Inl (BoobyError one_model_msg)"
  using ListField_two_models[of "ArgSeq [SClass Model, SValidator (ModelV Model)]" 0 "[]" "[]"]
  by simp

subsection \<open>The validator chain\<close>

text \<open>
  C7, as stated, fails: \<^verbatim>\<open>IntegerField(custom, min_value=1)\<close> has the chain
  \<^verbatim>\<open>Integer, custom, Min(1)\<close>. The bound validator comes after the caller's validator,
  so the chain is neither "type-specific, then custom" with \<^verbatim>\<open>Integer\<close> alone as the
  type-specific part, nor with \<^verbatim>\<open>Integer, Min\<close> as the type-specific part.
\<close>

theorem chain_counterexample:
  "validators (IntegerField_init 0 [Custom 7 True] [(''min_value'', PInt 1)])
     = [Integer, Custom 7 True, Min (PInt 1)] \<and>
   validators (IntegerField_init 0 [Custom 7 True] [(''min_value'', PInt 1)])
     \<noteq> spec_chain PNone PNone [Integer] [Custom 7 True] \<and>
   validators (IntegerField_init 0 [Custom 7 True] [(''min_value'', PInt 1)])
     \<noteq> spec_chain PNone PNone [Integer, Min (PInt 1)] [Custom 7 True]"
  by (simp add: IntegerField_init_def append_validators_def Field_init_def Field_validators_def
      bound_validators_def kwargs_get_def spec_chain_def)

text \<open>
  C7, amended. For the base \<^verbatim>\<open>Field\<close> and for \<^verbatim>\<open>StringField\<close>,
  \<^verbatim>\<open>BooleanField\<close>, \<^verbatim>\<open>EmailField\<close>, \<^verbatim>\<open>EmbeddedField\<close>,
  \<^verbatim>\<open>DateTimeField\<close> and \<^verbatim>\<open>DictField\<close> the chain is: \<^verbatim>\<open>Required\<close> when
  \<open>required\<close> is true, \<^verbatim>\<open>In\<close> when \<open>choices\<close> is not empty, the validator of the
  field class (none for \<^verbatim>\<open>Field\<close>), then the caller's validators in their order.
  \<^verbatim>\<open>IntegerField\<close> and \<^verbatim>\<open>FloatField\<close> have the same chain followed by
  \<^verbatim>\<open>Min\<close> when \<open>min_value\<close> is given and true and then by \<^verbatim>\<open>Max\<close> when
  \<open>max_value\<close> is given and true. A \<^verbatim>\<open>ListField\<close> constructed without further
  positional validators has \<^verbatim>\<open>Required\<close>, \<^verbatim>\<open>In\<close> and its \<^verbatim>\<open>List\<close>
  validator in this order.
\<close>

theorem chain_order:
  "validators (Field_init i k args kw)
     = spec_chain (kwargs_get kw ''required'') (kwargs_get kw ''choices'') [] args \<and>
   validators (StringField_init i args kw)
     = spec_chain (kwargs_get kw ''required'') (kwargs_get kw ''choices'') [String] args \<and>
   validators (BooleanField_init i args kw)
     = spec_chain (kwargs_get kw ''required'') (kwargs_get kw ''choices'') [Boolean] args \<and>
   validators (EmailField_init i args kw)
     = spec_chain (kwargs_get kw ''required'') (kwargs_get kw ''choices'') [Email] args \<and>
   validators (EmbeddedField_init i m args kw)
     = spec_chain (kwargs_get kw ''required'') (kwargs_get kw ''choices'') [ModelV m] args \<and>
   DateTimeField_validators args kw
     = spec_chain (kwargs_get kw ''required'') (kwargs_get kw ''choices'') [DateTime] args \<and>
   validators (IntegerField_init i args kw)
     = spec_chain_bounds (kwargs_get kw ''required'') (kwargs_get kw ''choices'') [Integer] args
         (kwargs_get kw ''min_value'') (kwargs_get kw ''max_value'') \<and>
   validators (FloatField_init i args kw)
     = spec_chain_bounds (kwargs_get kw ''required'') (kwargs_get kw ''choices'') [Float] args
         (kwargs_get kw ''min_value'') (kwargs_get kw ''max_value'') \<and>
   (\<forall>f. DictField_init i key val args kw = Inr f \<longrightarrow>
      validators f = spec_chain (kwargs_get kw ''required'') (kwargs_get kw ''choices'') [Dict] args) \<and>
   (\<forall>f. ListField_init i spec [] kw = Inr f \<longrightarrow>
      (\<exists>inner. validators f
         = spec_chain (kwargs_get kw ''required'') (kwargs_get kw ''choices'') [ListV inner] []))"
  by (auto simp: Field_init_def Field_validators_def StringField_init_def BooleanField_init_def
      EmailField_init_def EmbeddedField_init_def DateTimeField_validators_def
      IntegerField_init_def FloatField_init_def append_validators_def bound_validators_def
      DictField_init_def ListField_init_def spec_chain_def spec_chain_bounds_def
      split: sum.splits prod.splits)

theorem chain_order_witness:
  "DictField_init 0 ArgNone ArgNone
       [Custom 7 True] [(''required'', PBool True), (''min_value'', PInt 1), (''max_value'', PInt 9)]
     = Inr (Field_init 0 (DictK None [] None []) [Dict, Custom 7 True]
         [(''required'', PBool True), (''min_value'', PInt 1), (''max_value'', PInt 9)]) \<and>
   validators (Field_init 0 (DictK None [] None []) [Dict, Custom 7 True]
       [(''required'', PBool True), (''min_value'', PInt 1), (''max_value'', PInt 9)])
     = [Required, Dict, Custom 7 True] \<and>
   ListField_init 0 (ArgOne (SClass Model)) []
       [(''required'', PBool True), (''min_value'', PInt 1), (''max_value'', PInt 9)]
     = Inr (Field_init 0 (ListK (Some Model)) [ListV [ModelV Model]]
         [(''required'', PBool True), (''min_value'', PInt 1), (''max_value'', PInt 9)]) \<and>
   validators (Field_init 0 (ListK (Some Model)) [ListV [ModelV Model]]
       [(''required'', PBool True), (''min_value'', PInt 1), (''max_value'', PInt 9)])
     = [Required, ListV [ModelV Model]] \<and>
   DateTimeField_validators [Custom 7 True]
       [(''required'', PBool True), (''min_value'', PInt 1), (''max_value'', PInt 9)]
     = [Required, DateTime, Custom 7 True] \<and>
   validators (IntegerField_init 0 [Custom 7 True]
       [(''required'', PBool True), (''min_value'', PInt 1), (''max_value'', PInt 9)])
     = [Required, Integer, Custom 7 True, Min (PInt 1), Max (PInt 9)] \<and>
   validators (FloatField_init 0 [Custom 7 True]
       [(''required'', PBool True), (''min_value'', PInt 1), (''max_value'', PInt 9)])
     = [Required, Float, Custom 7 True, Min (PInt 1), Max (PInt 9)]"
  using chain_order[of 0 "DictK None [] None []" "[Custom 7 True]"
      "[(''required'', PBool True), (''min_value'', PInt 1), (''max_value'', PInt 9)]"
      Model ArgNone ArgNone "ArgOne (SClass Model)"]
  by (simp add: DictField_init_def ListField_init_def fetch_model_def Field_init_def
      Field_validators_def kwargs_get_def spec_chain_def spec_chain_bounds_def)

subsection \<open>ModelMeta.__new__\<close>

text \<open>
  C2 on the classes \<^verbatim>\<open>Grand\<close>, \<^verbatim>\<open>Parent(Grand)\<close>, \<^verbatim>\<open>Child(Parent)\<close>: the loop over
  \<^verbatim>\<open>bases\<close> reads \<^verbatim>\<open>base.__dict__\<close>, which holds the fields of the parent's own body
  only, so the field \<open>a\<close> of the grandparent is not in \<^verbatim>\<open>Child._fields\<close>, although it is
  in the schema that the specification describes; \<^verbatim>\<open>Child(a=1)\<close> raises
  \<^verbatim>\<open>FieldError\<close>.
\<close>

theorem grandparent_field_missing:
  "map_of (c_fields Child) ''a'' = None \<and>
   map_of (spec_schema Child) ''a'' = Some grand_a \<and>
   Model_call Child empty_store [(''a'', PInt 1)] = Inl (FieldError ''Child'' ''a'')"
  by (simp add: Child_def Parent_def Grand_def Model_def ModelMeta_new_def Model_call_def
      Model_new_def empty_store_def)

subsection \<open>update with an empty mapping\<close>

text \<open>
  C9. \<^verbatim>\<open>update({}, plain_=True)\<close> returns without an error and leaves the whole store,
  and so every field of every instance, as it was, for every instance and whatever
  keyword arguments come with the call.
\<close>

theorem update_empty_noop: "update s r (PDict []) True kwargs = Inr s"
  by simp

subsection \<open>What the write path leaves alone\<close>



lemma extends_Model_new: "extends s (fst (Model_new m s))"
  by (simp add: extends_def Model_new_def)






subsection \<open>IntegerField.__set__\<close>

lemma kind_int_field: "kind int_field = IntegerK"
  by (simp add: int_field_def IntegerField_init_def append_validators_def Field_init_def)

lemma parse_int_5: "parse_int (strip ''5'') = Some 5"
  by (simp add: strip_def is_space_def is_digit_def digits_value_def)

lemma parse_int_abc: "parse_int (strip ''abc'') = None"
  by (simp add: strip_def is_space_def is_digit_def digits_value_def)

text \<open>
  C4. On an \<^verbatim>\<open>IntegerField\<close>, assigning the text "5" stores the integer 5, which
  is what the field then reads, and assigning the text "abc" fails at the assignment with
  the \<^verbatim>\<open>BoobyError\<close> "Should contain only integer values.", the conversion error
  of the specification. Assigning a list, which cannot be coerced to an integer either,
  does not fail with that error: \<^verbatim>\<open>int\<close> raises \<^verbatim>\<open>TypeError\<close> for it,
  \<^verbatim>\<open>IntegerField.__set__\<close> catches \<^verbatim>\<open>ValueError\<close> only, and the
  \<^verbatim>\<open>TypeError\<close> leaves the assignment as it is.
\<close>

theorem integer_set:
  "kind f = IntegerK \<Longrightarrow>
     field_set f s r (PStr ''5'') = Inr (Field_set f s r (PInt 5)) \<and>
     Field_get f (Field_set f s r (PInt 5)) r = PInt 5 \<and>
     field_set f s r (PStr ''abc'') = Inl (BoobyError integer_msg) \<and>
     field_set f s r (PList xs) = Inl TypeError \<and>
     field_set f s r (PList xs) \<noteq> Inl (BoobyError integer_msg)"
  by (auto simp: field_set_def integer_value_def parse_int_5 parse_int_abc Field_get_def
      Field_set_def AList.update_conv')

theorem integer_set_witness:
  "kind int_field = IntegerK \<and>
   field_set int_field empty_store 0 (PStr ''5'') = Inr (Field_set int_field empty_store 0 (PInt 5)) \<and>
   Field_get int_field (Field_set int_field empty_store 0 (PInt 5)) 0 = PInt 5 \<and>
   field_set int_field empty_store 0 (PStr ''abc'') = Inl (BoobyError integer_msg) \<and>
   field_set int_field empty_store 0 (PList []) = Inl TypeError"
  using integer_set[OF kind_int_field, of empty_store 0 "[]"]
  by (simp add: kind_int_field)

subsection \<open>to_plain of a false value\<close>

text \<open>
  C10. The \<^verbatim>\<open>to_plain\<close> of \<^verbatim>\<open>ListField\<close>, \<^verbatim>\<open>DictField\<close> and
  \<^verbatim>\<open>EmbeddedField\<close> gives \<^verbatim>\<open>None\<close> for every value that is false: for the empty
  list (and not the empty list back), for the empty dict (and not the empty dict back), and
  for \<^verbatim>\<open>None\<close>, whatever the configuration of the field. An \<^verbatim>\<open>EmbeddedField\<close> that
  holds an instance whose own \<^verbatim>\<open>to_plain()\<close> returns a false value, which an instance
  of a class without fields does, gives \<^verbatim>\<open>None\<close> too.
\<close>

theorem to_plain_falsy:
  "(\<not> truthy v \<longrightarrow>
      field_to_plain n s (ListK model) v = Inr PNone \<and>
      field_to_plain n s (DictK key_model kvs value_model vvs) v = Inr PNone \<and>
      field_to_plain n s (EmbeddedK m) v = Inr PNone) \<and>
   (Model_to_plain n s r = Inr p \<and> \<not> truthy p \<longrightarrow>
      field_to_plain n s (EmbeddedK m) (PObj r) = Inr PNone) \<and>
   (c_fields (ocls (objs s r)) = [] \<longrightarrow>
      field_to_plain (Suc n) s (EmbeddedK m) (PObj r) = Inr PNone)"
  by simp

theorem to_plain_falsy_witness:
  "\<not> truthy (PList []) \<and>
   field_to_plain 1 empty_store (ListK (Some Pair_cls)) (PList []) = Inr PNone \<and>
   field_to_plain 1 empty_store (ListK (Some Pair_cls)) (PList []) \<noteq> Inr (PList []) \<and>
   \<not> truthy (PDict []) \<and>
   field_to_plain 1 empty_store (DictK None [] (Some Pair_cls) [ModelV Pair_cls]) (PDict []) = Inr PNone \<and>
   field_to_plain 1 empty_store (DictK None [] (Some Pair_cls) [ModelV Pair_cls]) (PDict []) \<noteq> Inr (PDict []) \<and>
   field_to_plain 1 empty_store (EmbeddedK Model) PNone = Inr PNone \<and>
   c_fields (ocls (objs (fst (Model_new Model empty_store)) 0)) = [] \<and>
   Model_to_plain 1 (fst (Model_new Model empty_store)) 0 = Inr (PDict []) \<and>
   \<not> truthy (PDict []) \<and>
   field_to_plain 1 (fst (Model_new Model empty_store)) (EmbeddedK Model) (PObj 0) = Inr PNone"
  using to_plain_falsy[of "PList []" 1 empty_store "Some Pair_cls" None "[]" "Some Pair_cls" "[ModelV Pair_cls]" Model 0 "PDict []"]
    to_plain_falsy[of "PDict []" 1 empty_store "Some Pair_cls" None "[]" "Some Pair_cls" "[ModelV Pair_cls]" Model 0 "PDict []"]
    to_plain_falsy[of PNone 0 "fst (Model_new Model empty_store)" None None "[]" None "[]" Model 0 "PDict []"]
    to_plain_falsy[of PNone 1 "fst (Model_new Model empty_store)" None None "[]" None "[]" Model 0 "PDict []"]
  by (simp add: Model_new_def empty_store_def Model_def ModelMeta_new_def)

subsection \<open>Undeclared field names\<close>

lemma is_str_kwargs: "list_all is_str (map (fst \<circ> (\<lambda>(k, v). (PStr k, v))) kw)"
  by (induction kw) auto

lemma PStr_kwargs:
  "PStr k \<in> (\<lambda>x. fst (case x of (k, v) \<Rightarrow> (PStr k, v))) ` set kw \<longleftrightarrow> k \<in> fst ` set kw"
  by (induction kw) auto

lemma Model_call_init_loop:
  "Model_call m s kw =
     (if ''cls'' \<in> fst ` set kw \<or> ''self'' \<in> fst ` set kw then Inl TypeError
      else (case init_loop (fst (Model_new m s)) (next_ref s) (map (\<lambda>(k, v). (PStr k, v)) kw) of
              Inl e \<Rightarrow> Inl e
            | Inr s' \<Rightarrow> Inr (s', next_ref s)))"
  by (simp add: Model_call_def is_str_kwargs PStr_kwargs Model_new_def split: sum.splits)

text \<open>
  C3. Let \<open>k\<close> be a name that is not in \<^verbatim>\<open>_fields\<close> of a class. Setting \<open>k\<close> on an
  instance of the class raises \<^verbatim>\<open>FieldError\<close>, whatever the value. Whenever the loop of
  \<^verbatim>\<open>Model.__init__\<close> comes to the keyword \<open>k\<close>, it raises \<^verbatim>\<open>FieldError\<close>, whatever
  the value and the keywords still to come; so constructing an instance with \<open>k\<close> as the
  keyword raises \<^verbatim>\<open>FieldError\<close>, except when \<open>k\<close> is \<open>cls\<close> or \<open>self\<close>:
  \<^verbatim>\<open>Model(self=1)\<close> is a \<^verbatim>\<open>TypeError\<close>, raised by the call before
  \<^verbatim>\<open>Model.__init__\<close> looks at any name, although the docstring of \<^verbatim>\<open>Model\<close>
  promises \<^verbatim>\<open>FieldError\<close> for every key that is not a field.
\<close>

theorem undeclared_name:
  "map_of (c_fields m) k = None \<Longrightarrow>
     Model_call m s [(k, v)]
       = Inl (if k = ''cls'' \<or> k = ''self'' then TypeError else FieldError (cname m) k) \<and>
     (\<forall>s' r rest. ocls (objs s' r) = m \<longrightarrow>
        init_loop s' r ((PStr k, v) # rest) = Inl (FieldError (cname m) k)) \<and>
     (\<forall>s' r. ocls (objs s' r) = m \<longrightarrow> Model_setitem s' r k v = Inl (FieldError (cname m) k))"
  by (simp add: Model_call_init_loop Model_new_def Model_setitem_def)

theorem undeclared_name_witness:
  "map_of (c_fields Pair_cls) ''z'' = None \<and>
   Model_call Pair_cls empty_store [(''z'', PInt 9)] = Inl (FieldError ''Pair'' ''z'') \<and>
   ocls (objs (Field_set pair_a (fst (Model_new Pair_cls empty_store)) 0 (PInt 1)) 0) = Pair_cls \<and>
   init_loop (Field_set pair_a (fst (Model_new Pair_cls empty_store)) 0 (PInt 1)) 0
       [(PStr ''z'', PInt 9), (PStr ''b'', PStr ''abc'')]
     = Inl (FieldError ''Pair'' ''z'') \<and>
   Model_call Pair_cls empty_store [(''a'', PInt 1), (''z'', PInt 9), (''b'', PStr ''abc'')]
     = Inl (FieldError ''Pair'' ''z'') \<and>
   ocls (objs (fst (Model_new Pair_cls empty_store)) 0) = Pair_cls \<and>
   Model_setitem (fst (Model_new Pair_cls empty_store)) 0 ''z'' (PInt 9) = Inl (FieldError ''Pair'' ''z'') \<and>
   map_of (c_fields Pair_cls) ''self'' = None \<and>
   Model_call Pair_cls empty_store [(''self'', PInt 9)] = Inl TypeError \<and>
   Model_setitem (fst (Model_new Pair_cls empty_store)) 0 ''self'' (PInt 9) = Inl (FieldError ''Pair'' ''self'')"
proof -
  have k: "map_of (c_fields Pair_cls) ''z'' = None"
    by (simp add: Pair_cls_def ModelMeta_new_def Model_def)
  have k2: "map_of (c_fields Pair_cls) ''self'' = None"
    by (simp add: Pair_cls_def ModelMeta_new_def Model_def)
  have n: "cname Pair_cls = ''Pair''"
    by (simp add: Pair_cls_def ModelMeta_new_def)
  have c: "ocls (objs (fst (Model_new Pair_cls empty_store)) 0) = Pair_cls"
    by (simp add: Model_new_def empty_store_def)
  have c1: "ocls (objs (Field_set pair_a (fst (Model_new Pair_cls empty_store)) 0 (PInt 1)) 0) = Pair_cls"
    by (simp add: Model_new_def empty_store_def Field_set_def)
  have a: "Model_call Pair_cls empty_store [(''a'', PInt 1), (''z'', PInt 9), (''b'', PStr ''abc'')]
     = Inl (FieldError ''Pair'' ''z'')"
    by (simp add: Model_call_init_loop Pair_cls_def ModelMeta_new_def Model_def Model_new_def
        empty_store_def pair_a_def Field_init_def Field_set_def)
  note inst = undeclared_name[OF k, of empty_store "PInt 9", unfolded n]
  note inst2 = undeclared_name[OF k2, of empty_store "PInt 9", unfolded n]
  from inst have p1: "Model_call Pair_cls empty_store [(''z'', PInt 9)] = Inl (FieldError ''Pair'' ''z'')"
    by simp
  from inst c1 have p2: "init_loop (Field_set pair_a (fst (Model_new Pair_cls empty_store)) 0 (PInt 1)) 0
       [(PStr ''z'', PInt 9), (PStr ''b'', PStr ''abc'')]
     = Inl (FieldError ''Pair'' ''z'')"
    by blast
  from inst c have p3: "Model_setitem (fst (Model_new Pair_cls empty_store)) 0 ''z'' (PInt 9) = Inl (FieldError ''Pair'' ''z'')"
    by blast
  from inst2 have p4: "Model_call Pair_cls empty_store [(''self'', PInt 9)] = Inl TypeError"
    by simp
  from inst2 c have p5: "Model_setitem (fst (Model_new Pair_cls empty_store)) 0 ''self'' (PInt 9) = Inl (FieldError ''Pair'' ''self'')"
    by blast
  show ?thesis using k k2 a c c1 p1 p2 p3 p4 p5 by simp
qed

subsection \<open>update and undeclared keys\<close>

















subsection \<open>update of a nested instance\<close>







lemma box_store_built:
  "Model_call Point empty_store [(''x'', PInt 1), (''y'', PInt 1)] = Inr (point_store, 0) \<and>
   Model_call Box point_store [(''inner'', PObj 0)] = Inr (box_store, 1)"
  by (simp add: Model_call_def Model_new_def empty_store_def Box_def Point_def ModelMeta_new_def
      Model_def box_inner_def point_x_def point_y_def EmbeddedField_init_def IntegerField_init_def
      append_validators_def Field_init_def Field_set_def integer_value_def box_store_def
      point_store_def fun_eq_iff)


subsection \<open>The round trip through the plain form\<close>






















lemma extends_objs: "extends s s' \<Longrightarrow> y < next_ref s \<Longrightarrow> objs s' y = objs s y"
  by (simp add: extends_def)

lemma extends_next: "extends s s' \<Longrightarrow> next_ref s \<le> next_ref s'"
  by (simp add: extends_def)

















end
